theory Spec2Isabelle
  imports Complex_Main "HOL-Library.Sublist"
begin

section \<open>Data model\<close>

text \<open>
  Modelled from the spec: the enumerations \<open>models.CreativeProviderType\<close> and
  \<open>models.VideoFeatureCategory\<close> are declared in a module that is not part of the
  sources at hand; the spec gives them two values each (cloud storage and video platform;
  long form and shorts), under the names the orchestrator uses.
\<close>

datatype CreativeProviderType = GCS | YOUTUBE

datatype VideoFeatureCategory = LONG_FORM_ABCD | SHORTS

text \<open>
  Modelled from the spec: the class \<open>Configuration\<close> is declared outside the sources at
  hand. Its fields are the ones of the spec's data model. \<open>video_uris\<close> may be \<open>None\<close>
  (the transport passes \<open>data.get("video_url")\<close> through), and so may the brand details.
\<close>

record Configuration =
  creative_provider_type :: CreativeProviderType
  video_uris :: "string list option"
  brand_name :: "string option"
  brand_variations :: "string list option"
  branded_products :: "string list option"
  branded_products_categories :: "string list option"
  branded_call_to_actions :: "string list option"
  use_annotations :: bool
  run_long_form_abcd :: bool
  run_shorts :: bool

text \<open>
  Modelled from the spec: \<open>models.VideoAssessment\<close>, built by keyword from the five
  values the orchestrator passes. The evaluated features are opaque to the orchestrator
  (type \<open>'f\<close>). The field \<open>brand_name\<close> of the assessment is written \<open>brand_name_va\<close>,
  the configuration owning the unsuffixed name.
\<close>

record 'f VideoAssessment =
  brand_name_va :: "string option"
  video_uri :: string
  long_form_abcd_evaluated_features :: "'f list"
  shorts_evaluated_features :: "'f list"
  config :: Configuration

text \<open>
  A raised Python exception. \<open>is_Exception\<close> is \<open>isinstance(ex, Exception)\<close>: it is false
  for \<open>KeyboardInterrupt\<close>, \<open>SystemExit\<close> and \<open>GeneratorExit\<close>, which derive from
  \<open>BaseException\<close> only. \<open>exc_type\<close> is the name of the class and \<open>exc_str\<close> is the
  message, the text of \<open>str(ex)\<close>.
\<close>

record exn =
  is_Exception :: bool
  exc_type :: string
  exc_str :: string

text \<open>
  What a run does to the outside, in order. \<open>Write\<close> is text written to \<open>sys.stdout\<close> or
  \<open>sys.stderr\<close>, whatever they are bound to at that moment; \<open>Log_error\<close> and \<open>Log_info\<close>
  are records handed to the \<open>logging\<close> module; the others are calls of the external
  collaborators with their arguments (the configuration, passed to most of them, is left
  out), \<open>Evaluate_features\<close> carrying what the service returned or raised, and
  \<open>New_VideoAssessment\<close> the construction of the assessment record.
\<close>

datatype 'f event =
    Write string
  | Log_error string
  | Log_info string
  | Build_custom_config
  | Get_provider CreativeProviderType
  | Get_creative_uris
  | Generate_video_annotations string
  | Trim_video string
  | Evaluate_features string VideoFeatureCategory "exn + 'f list"
  | New_VideoAssessment "'f VideoAssessment"
  | Print_abcd_assessment "string option" string "'f list"
  | Remove_local_video_files

text \<open>
  An external collaborator is a function of the outside world \<open>'w\<close>: it returns or
  raises, writes some text to the standard streams, and leaves a new world.
\<close>

type_synonym ('a, 'w) reply = "(exn + 'a) \<times> string \<times> 'w"

text \<open>
  The collaborators and helpers that the two source files import. \<open>'p\<close> is the provider
  object that the registry hands out and \<open>'j\<close> the values of the request body.
  \<open>format_2f\<close> is Python's \<open>:.2f\<close> rendering of a float.

  The last two fields are the library calls of the \<open>except\<close> handler of \<open>analyse\<close>.
  \<open>stdout_print label ex\<close> is \<open>print(label, ex)\<close> on the standard output of the
  process, not redirected: it can raise (\<open>str(ex)\<close> fails, the stream is closed, the
  stream cannot encode the message), and the text of its reply is what reached the
  stream. \<open>print_exc ex\<close> is \<open>traceback.print_exc(file=buffer)\<close> for the exception
  being handled: the text of its reply is what it wrote to the buffer. The layout of that
  text is the library's (stack frames, the line of the exception, its notes; a
  \<open>SyntaxError\<close> is laid out in its own way) and is not fixed here.
\<close>

record ('w, 'f, 'p, 'j) env =
  build_custom_config :: "'j \<Rightarrow> 'j \<Rightarrow> 'j \<Rightarrow> 'j \<Rightarrow> 'j \<Rightarrow> 'j \<Rightarrow> 'w \<Rightarrow> (Configuration, 'w) reply"
  invalid_brand_metadata :: "Configuration \<Rightarrow> bool"
  time_time :: "'w \<Rightarrow> real"
  format_2f :: "real \<Rightarrow> string"
  get_provider :: "CreativeProviderType \<Rightarrow> 'w \<Rightarrow> ('p, 'w) reply"
  get_creative_uris :: "'p \<Rightarrow> Configuration \<Rightarrow> 'w \<Rightarrow> (string list, 'w) reply"
  generate_video_annotations :: "Configuration \<Rightarrow> string \<Rightarrow> 'w \<Rightarrow> (unit, 'w) reply"
  trim_video :: "Configuration \<Rightarrow> string \<Rightarrow> 'w \<Rightarrow> (unit, 'w) reply"
  evaluate_features ::
    "Configuration \<Rightarrow> string \<Rightarrow> VideoFeatureCategory \<Rightarrow> 'w \<Rightarrow> ('f list, 'w) reply"
  print_abcd_assessment :: "string option \<Rightarrow> string \<Rightarrow> 'f list \<Rightarrow> 'w \<Rightarrow> (unit, 'w) reply"
  remove_local_video_files :: "'w \<Rightarrow> (unit, 'w) reply"
  stdout_print :: "string \<Rightarrow> exn \<Rightarrow> 'w \<Rightarrow> (unit, 'w) reply"
  print_exc :: "exn \<Rightarrow> 'w \<Rightarrow> (unit, 'w) reply"

section \<open>Effects: exceptions, emitted events, the outside world\<close>

text \<open>
  A piece of the program takes the world and gives back its outcome (\<open>Inl\<close> an exception
  in flight, \<open>Inr\<close> a value), the events it emitted in order, and the world it leaves.
\<close>

type_synonym ('a, 'w, 'f) comp = "'w \<Rightarrow> (exn + 'a) \<times> 'f event list \<times> 'w"

definition return :: "'a \<Rightarrow> ('a, 'w, 'f) comp" where
  "return a w = (Inr a, [], w)"

text \<open>Sequencing: an exception of the first part skips the second.\<close>

definition then_do :: "('a, 'w, 'f) comp \<Rightarrow> ('a \<Rightarrow> ('b, 'w, 'f) comp) \<Rightarrow> ('b, 'w, 'f) comp" where
  "then_do m k w =
     (case m w of
        (Inl e, evs, w') \<Rightarrow> (Inl e, evs, w')
      | (Inr a, evs, w') \<Rightarrow> (case k a w' of (r, evs', w'') \<Rightarrow> (r, evs @ evs', w'')))"

definition emit :: "'f event \<Rightarrow> (unit, 'w, 'f) comp" where
  "emit e w = (Inr (), [e], w)"

definition newline :: string where
  "newline = [CHR 0x0A]"

text \<open>Python's \<open>print(s)\<close> writes \<open>s\<close> and a line end.\<close>

definition print :: "string \<Rightarrow> (unit, 'w, 'f) comp" where
  "print s = emit (Write (s @ newline))"

definition logging_error :: "string \<Rightarrow> (unit, 'w, 'f) comp" where
  "logging_error s = emit (Log_error s)"

definition logging_info :: "string \<Rightarrow> (unit, 'w, 'f) comp" where
  "logging_info s = emit (Log_info s)"

text \<open>
  A call of a collaborator: the text it wrote while it ran, then the record of the call,
  made when it returns or raises.
\<close>

definition call :: "((exn + 'a) \<Rightarrow> 'f event) \<Rightarrow> ('w \<Rightarrow> ('a, 'w) reply) \<Rightarrow> ('a, 'w, 'f) comp" where
  "call ev c w = (case c w of (r, out, w') \<Rightarrow> (r, [Write out, ev r], w'))"

text \<open>Python's \<open>needle in haystack\<close> on strings: the needle occurs at some offset.\<close>

fun str_in :: "string \<Rightarrow> string \<Rightarrow> bool" where
  "str_in needle [] = (needle = [])"
| "str_in needle (c # cs) = (prefix needle (c # cs) \<or> str_in needle cs)"

section \<open>The orchestrator: \<open>execute_abcd_assessment_for_videos\<close>\<close>

text \<open>
  The body of one iteration after the two consistency checks (from the
  \<open>logging.info\<close> of "Processing ..." to \<open>remove_local_video_files\<close>).
\<close>

definition process_video ::
  "('w, 'f, 'p, 'j) env \<Rightarrow> Configuration \<Rightarrow> string \<Rightarrow> (unit, 'w, 'f) comp" where
  "process_video env cfg uri =
     then_do (logging_info (''Processing ABCD Assessment for video '' @ uri @ ''...'')) (\<lambda>_.
     then_do (print (newline @ newline @ ''Processing ABCD Assessment for video '' @ uri
                     @ ''... '' @ newline)) (\<lambda>_.
     then_do (if use_annotations cfg \<and> creative_provider_type cfg = GCS
              then call (\<lambda>_. Generate_video_annotations uri)
                        (generate_video_annotations env cfg uri)
              else return ()) (\<lambda>_.
     then_do (if run_long_form_abcd cfg \<and> creative_provider_type cfg = GCS
              then call (\<lambda>_. Trim_video uri) (trim_video env cfg uri)
              else return ()) (\<lambda>_.
     then_do (if run_long_form_abcd cfg
              then call (Evaluate_features uri LONG_FORM_ABCD)
                        (evaluate_features env cfg uri LONG_FORM_ABCD)
              else return []) (\<lambda>long_form.
     then_do (if run_shorts cfg
              then call (Evaluate_features uri SHORTS) (evaluate_features env cfg uri SHORTS)
              else return []) (\<lambda>shorts.
     then_do (return \<lparr>brand_name_va = brand_name cfg, video_uri = uri,
                      long_form_abcd_evaluated_features = long_form,
                      shorts_evaluated_features = shorts, config = cfg\<rparr>) (\<lambda>video_assessment.
     then_do (emit (New_VideoAssessment video_assessment)) (\<lambda>_.
     then_do (if length long_form > 0
              then call (\<lambda>_. Print_abcd_assessment (brand_name_va video_assessment)
                                 (video_uri video_assessment) long_form)
                        (print_abcd_assessment env (brand_name_va video_assessment)
                           (video_uri video_assessment) long_form)
              else logging_info
                     ''There are not Full ABCD evaluated features results to display.'') (\<lambda>_.
     then_do (if length shorts > 0
              then call (\<lambda>_. Print_abcd_assessment (brand_name_va video_assessment)
                                 (video_uri video_assessment) shorts)
                        (print_abcd_assessment env (brand_name_va video_assessment)
                           (video_uri video_assessment) shorts)
              else logging_info
                     ''There are not Shorts evaluated features results to display.'') (\<lambda>_.
     call (\<lambda>_. Remove_local_video_files) (remove_local_video_files env)))))))))))"

text \<open>
  The \<open>for\<close> loop over the locators: a \<open>break\<close> leaves the loop normally, an exception
  of the body leaves it with the exception.
\<close>

fun for_video_uri ::
  "('w, 'f, 'p, 'j) env \<Rightarrow> Configuration \<Rightarrow> string list \<Rightarrow> (unit, 'w, 'f) comp" where
  "for_video_uri env cfg [] w = return () w"
| "for_video_uri env cfg (uri # rest) w =
     (if creative_provider_type cfg = GCS \<and> \<not> str_in ''gs://'' uri
      then logging_error (''The creative provider GCS does not match with the video uri''
                          @ '' '' @ uri @ ''. Stopping execution. Please check.'') w
      else if creative_provider_type cfg = YOUTUBE \<and> \<not> str_in ''https://www.youtube.com'' uri
      then logging_error (''The creative provider YOUTUBE does not match with the video uri''
                          @ '' '' @ uri @ ''. Stopping execution. Please check.'') w
      else then_do (process_video env cfg uri) (\<lambda>_ w'. for_video_uri env cfg rest w') w)"

definition execute_abcd_assessment_for_videos ::
  "('w, 'f, 'p, 'j) env \<Rightarrow> Configuration \<Rightarrow> (unit, 'w, 'f) comp" where
  "execute_abcd_assessment_for_videos env cfg =
     then_do (call (\<lambda>_. Get_provider (creative_provider_type cfg))
                   (get_provider env (creative_provider_type cfg))) (\<lambda>creative_provider.
     then_do (call (\<lambda>_. Get_creative_uris) (get_creative_uris env creative_provider cfg))
       (\<lambda>uris. for_video_uri env cfg uris))"

section \<open>The run wrapper: \<open>analyse\<close>\<close>

text \<open>Python's truth value of \<open>config.video_uris\<close>: \<open>None\<close> and the empty list are false.\<close>

definition truthy :: "string list option \<Rightarrow> bool" where
  "truthy v = (case v of None \<Rightarrow> False | Some uris \<Rightarrow> uris \<noteq> [])"

text \<open>
  The block under \<open>with redirect_stdout(buffer), redirect_stderr(buffer)\<close>. Its value is
  \<open>Some msg\<close> for the early \<open>return {"error": msg, "logs": buffer.getvalue()}\<close> and
  \<open>None\<close> when the block runs to its end.
\<close>

definition analyse_block ::
  "('w, 'f, 'p, 'j) env \<Rightarrow> 'j \<Rightarrow> 'j \<Rightarrow> 'j \<Rightarrow> 'j \<Rightarrow> 'j \<Rightarrow> 'j \<Rightarrow> (string option, 'w, 'f) comp" where
  "analyse_block env video_uris' brand_name' brand_variations' branded_products'
       branded_products_categories' branded_call_to_actions' =
     then_do (call (\<lambda>_. Build_custom_config)
                (build_custom_config env video_uris' brand_name' brand_variations'
                   branded_products' branded_products_categories' branded_call_to_actions'))
       (\<lambda>cfg.
     if invalid_brand_metadata env cfg
     then then_do (print (''Invalid brand metadata. Please provide brand details.'' @ newline))
            (\<lambda>_. return (Some ''Invalid brand metadata''))
     else (\<lambda>w0.
       (let start_time = time_time env w0 in
        then_do (print (''Starting ABCD assessment...'' @ newline)) (\<lambda>_.
        then_do (if truthy (video_uris cfg)
                 then then_do (execute_abcd_assessment_for_videos env cfg)
                        (\<lambda>_. print (''Finished ABCD assessment.'' @ newline))
                 else print (''There are no videos to process.'' @ newline)) (\<lambda>_.
        then_do (\<lambda>w1. print (''ABCD assessment took ''
                              @ format_2f env ((time_time env w1 - start_time) / 60)
                              @ '' mins.'' @ newline) w1) (\<lambda>_.
        return None)))) w0))"

text \<open>
  The text that a list of events wrote to the standard streams: while the redirection is
  in force this is what the buffer holds. The \<open>logging\<close> handlers are set up by
  \<open>logging.basicConfig\<close> when \<open>main.py\<close> is imported, on the stream that \<open>sys.stderr\<close>
  was then, so log records do not reach the buffer.
\<close>

fun written :: "'f event list \<Rightarrow> string" where
  "written [] = []"
| "written (Write s # evs) = s @ written evs"
| "written (_ # evs) = written evs"

fun is_Write :: "'f event \<Rightarrow> bool" where
  "is_Write (Write _) = True"
| "is_Write _ = False"

text \<open>
  \<open>analyse\<close>. The result dictionary is the list of its items. The events of the block
  that are writes went to the buffer, so they are not events of \<open>analyse\<close>. The handler
  of \<open>except Exception\<close> runs after the \<open>with\<close> statement has put the streams back and
  is itself under no \<open>try\<close>: its \<open>print("ERROR:", ex)\<close> goes to the standard output
  and not to the buffer, and an exception of it, or of \<open>traceback.print_exc\<close> after it,
  leaves \<open>analyse\<close>. An exception of the block that is not an instance of
  \<open>Exception\<close> is not handled.
\<close>

definition analyse ::
  "('w, 'f, 'p, 'j) env \<Rightarrow> 'j \<Rightarrow> 'j \<Rightarrow> 'j \<Rightarrow> 'j \<Rightarrow> 'j \<Rightarrow> 'j \<Rightarrow> ((string \<times> string) list, 'w, 'f) comp" where
  "analyse env video_uris' brand_name' brand_variations' branded_products'
       branded_products_categories' branded_call_to_actions' w =
     (case analyse_block env video_uris' brand_name' brand_variations' branded_products'
             branded_products_categories' branded_call_to_actions' w of
        (r, evs, w') \<Rightarrow>
          (let buffer = written evs; outside = filter (\<lambda>e. \<not> is_Write e) evs in
           case r of
             Inr (Some msg) \<Rightarrow> (Inr [(''error'', msg), (''logs'', buffer)], outside, w')
           | Inr None \<Rightarrow> (Inr [(''logs'', buffer)], outside, w')
           | Inl ex \<Rightarrow>
               if is_Exception ex
               then (case stdout_print env ''ERROR:'' ex w' of
                       (Inl e1, out, w1) \<Rightarrow> (Inl e1, outside @ [Write out], w1)
                     | (Inr _, out, w1) \<Rightarrow>
                         (case print_exc env ex w1 of
                            (Inl e2, tb, w2) \<Rightarrow> (Inl e2, outside @ [Write out], w2)
                          | (Inr _, tb, w2) \<Rightarrow>
                              (Inr [(''logs'', buffer @ tb)], outside @ [Write out], w2)))
               else (Inl ex, outside, w')))"

section \<open>Observations on a run\<close>

definition events_of :: "('a, 'w, 'f) comp \<Rightarrow> 'w \<Rightarrow> 'f event list" where
  "events_of m w = fst (snd (m w))"

text \<open>The assessment records built during a run, in order.\<close>

fun assessments :: "'f event list \<Rightarrow> 'f VideoAssessment list" where
  "assessments [] = []"
| "assessments (New_VideoAssessment va # evs) = va # assessments evs"
| "assessments (_ # evs) = assessments evs"

text \<open>The calls of the feature-evaluation service, with what each returned.\<close>

fun evaluations :: "'f event list \<Rightarrow> (string \<times> VideoFeatureCategory \<times> (exn + 'f list)) list" where
  "evaluations [] = []"
| "evaluations (Evaluate_features uri category r # evs) = (uri, category, r) # evaluations evs"
| "evaluations (_ # evs) = evaluations evs"

text \<open>
  The two conditions under which the loop logs an error and breaks, as one predicate,
  and the message it logs.
\<close>

definition provider_mismatch :: "Configuration \<Rightarrow> string \<Rightarrow> bool" where
  "provider_mismatch cfg uri =
     (creative_provider_type cfg = GCS \<and> \<not> str_in ''gs://'' uri
      \<or> creative_provider_type cfg = YOUTUBE \<and> \<not> str_in ''https://www.youtube.com'' uri)"

definition mismatch_message :: "Configuration \<Rightarrow> string \<Rightarrow> string" where
  "mismatch_message cfg uri =
     ''The creative provider ''
     @ (case creative_provider_type cfg of GCS \<Rightarrow> ''GCS'' | YOUTUBE \<Rightarrow> ''YOUTUBE'')
     @ '' does not match with the video uri '' @ uri @ ''. Stopping execution. Please check.''"

text \<open>The text that a locator has to contain for each provider.\<close>

fun expected_text :: "CreativeProviderType \<Rightarrow> string" where
  "expected_text GCS = ''gs://''"
| "expected_text YOUTUBE = ''https://www.youtube.com''"

text \<open>
  The loop gets as far as the check of the locator at index \<open>i\<close>: every earlier locator
  passes its check and no earlier iteration raises.
\<close>

definition reaches ::
  "('w, 'f, 'p, 'j) env \<Rightarrow> Configuration \<Rightarrow> string list \<Rightarrow> nat \<Rightarrow> 'w \<Rightarrow> bool" where
  "reaches env cfg uris i w =
     ((\<forall>j < i. \<not> provider_mismatch cfg (uris ! j))
      \<and> fst (for_video_uri env cfg (take i uris) w) = Inr ())"


section \<open>A concrete scenario\<close>

text \<open>
  The scenario of the spec: the cloud-storage provider, annotations and the long-form
  track enabled, shorts disabled. The world counts the collaborator calls made so far.
  \<open>long_form_reply\<close> is what the evaluation service does for the long-form category.
\<close>

definition scenario_env ::
  "(exn + string list) \<Rightarrow> (nat, string, unit, string list option) env" where
  "scenario_env long_form_reply =
     \<lparr>build_custom_config = (\<lambda>v b bv bp bc ca w.
        (Inr \<lparr>creative_provider_type = GCS, video_uris = v,
              brand_name = (case b of Some (n # _) \<Rightarrow> Some n | _ \<Rightarrow> None),
              brand_variations = bv, branded_products = bp,
              branded_products_categories = bc, branded_call_to_actions = ca,
              use_annotations = True, run_long_form_abcd = True, run_shorts = False\<rparr>,
         [], w)),
      invalid_brand_metadata = (\<lambda>c. brand_name c = None \<and> brand_variations c = None
         \<and> branded_products c = None \<and> branded_products_categories c = None
         \<and> branded_call_to_actions c = None),
      time_time = (\<lambda>w. real w),
      format_2f = (\<lambda>r. ''0.00''),
      get_provider = (\<lambda>t w. (Inr (), [], Suc w)),
      get_creative_uris = (\<lambda>p c w.
         (Inr (case video_uris c of None \<Rightarrow> [] | Some us \<Rightarrow> us), [], Suc w)),
      generate_video_annotations = (\<lambda>c u w. (Inr (), [], Suc w)),
      trim_video = (\<lambda>c u w. (Inr (), [], Suc w)),
      evaluate_features = (\<lambda>c u k w.
         (if k = LONG_FORM_ABCD then long_form_reply else Inr [], [], Suc w)),
      print_abcd_assessment = (\<lambda>b u fs w. (Inr (), ''report'', Suc w)),
      remove_local_video_files = (\<lambda>w. (Inr (), [], Suc w)),
      stdout_print = (\<lambda>label ex w. (Inr (), label @ '' '' @ exc_str ex @ newline, w)),
      print_exc = (\<lambda>ex w.
         (Inr (), ''Traceback (most recent call last):'' @ newline
                  @ (if exc_type ex = ''SyntaxError''
                     then ''  File <string>, line 1'' @ newline @ ''SyntaxError: invalid syntax''
                     else exc_type ex @ '': '' @ exc_str ex) @ newline, w))\<rparr>"

definition scenario_config :: "string list \<Rightarrow> Configuration" where
  "scenario_config uris =
     \<lparr>creative_provider_type = GCS, video_uris = Some uris,
      brand_name = Some ''Acme'', brand_variations = None, branded_products = None,
      branded_products_categories = None, branded_call_to_actions = None,
      use_annotations = True, run_long_form_abcd = True, run_shorts = False\<rparr>"

definition two_features :: "exn + string list" where
  "two_features = Inr [''f1'', ''f2'']"

definition keyboard_interrupt :: exn where
  "keyboard_interrupt =
     \<lparr>is_Exception = False, exc_type = ''KeyboardInterrupt'', exc_str = []\<rparr>"

definition service_error :: exn where
  "service_error =
     \<lparr>is_Exception = True, exc_type = ''RuntimeError'', exc_str = ''quota''\<rparr>"

text \<open>
  A \<open>SyntaxError\<close>: its \<open>str\<close> ends with the place of the error, which the traceback
  prints on a line of its own.
\<close>

definition syntax_error :: exn where
  "syntax_error =
     \<lparr>is_Exception = True, exc_type = ''SyntaxError'',
      exc_str = ''invalid syntax (<string>, line 1)''\<rparr>"

definition syntax_error_logs :: string where
  "syntax_error_logs =
     ''Starting ABCD assessment...'' @ newline @ newline
     @ newline @ newline @ ''Processing ABCD Assessment for video gs://bucket/video1.mp4... ''
     @ newline @ newline
     @ ''Traceback (most recent call last):'' @ newline
     @ ''  File <string>, line 1'' @ newline
     @ ''SyntaxError: invalid syntax'' @ newline"

definition broken_pipe :: exn where
  "broken_pipe =
     \<lparr>is_Exception = True, exc_type = ''BrokenPipeError'', exc_str = ''[Errno 32] Broken pipe''\<rparr>"

text \<open>The scenario with a standard output that has been closed on the other side.\<close>

definition broken_stdout_env :: "(nat, string, unit, string list option) env" where
  "broken_stdout_env =
     (scenario_env (Inl service_error))\<lparr>stdout_print := (\<lambda>label ex w. (Inl broken_pipe, [], w))\<rparr>"

text \<open>The scenario with an annotation generator that fails.\<close>

definition failing_annotations_env :: "(nat, string, unit, string list option) env" where
  "failing_annotations_env =
     (scenario_env two_features)\<lparr>generate_video_annotations :=
        (\<lambda>c u w. (Inl service_error, [], Suc w))\<rparr>"

definition three_locators :: "string list" where
  "three_locators = [''gs://bucket/video1.mp4'', ''video2.mp4'', ''gs://bucket/video3.mp4'']"

definition padded_locator :: string where
  "padded_locator = '' gs://bucket/video1.mp4''"

definition first_locator :: string where
  "first_locator = ''gs://bucket/video1.mp4''"

definition youtube_locator :: string where
  "youtube_locator = ''https://www.youtube.com/watch?v=abc''"

definition youtube_config :: Configuration where
  "youtube_config = (scenario_config [youtube_locator])\<lparr>creative_provider_type := YOUTUBE\<rparr>"

section \<open>Predicates on pieces of the program\<close>

text \<open>Every event that a piece of the program can emit satisfies \<open>P\<close>.\<close>

definition emits_only :: "('f event \<Rightarrow> bool) \<Rightarrow> ('a, 'w, 'f) comp \<Rightarrow> bool" where
  "emits_only P m = (\<forall>w. \<forall>e \<in> set (events_of m w). P e)"

text \<open>
  Whenever the piece returns normally, the cleanup is the last thing it did, and it did it
  once.
\<close>

definition ends_with_cleanup :: "(unit, 'w, 'f) comp \<Rightarrow> bool" where
  "ends_with_cleanup m =
     (\<forall>w evs w'. m w = (Inr (), evs, w') \<longrightarrow>
        last evs = Remove_local_video_files \<and> count_list evs Remove_local_video_files = 1)"


section \<open>Basic facts\<close>

lemma str_in_iff: "str_in needle s \<longleftrightarrow> (\<exists>pre suf. s = pre @ needle @ suf)"
proof (induction s)
  case Nil
  then show ?case by auto
next
  case (Cons c cs)
  show ?case
  proof
    assume "str_in needle (c # cs)"
    then consider "prefix needle (c # cs)" | "str_in needle cs" by auto
    then show "\<exists>pre suf. c # cs = pre @ needle @ suf"
    proof cases
      case 1
      then obtain suf where "c # cs = needle @ suf" by (auto simp: prefix_def)
      then have "c # cs = [] @ needle @ suf" by simp
      then show ?thesis by blast
    next
      case 2
      with Cons obtain pre suf where "cs = pre @ needle @ suf" by blast
      then have "c # cs = (c # pre) @ needle @ suf" by simp
      then show ?thesis by blast
    qed
  next
    assume "\<exists>pre suf. c # cs = pre @ needle @ suf"
    then obtain pre suf where eq: "c # cs = pre @ needle @ suf" by blast
    show "str_in needle (c # cs)"
    proof (cases pre)
      case Nil
      with eq have "prefix needle (c # cs)" by (simp add: prefix_def)
      then show ?thesis by simp
    next
      case (Cons p ps)
      with eq have "cs = ps @ needle @ suf" by simp
      with Cons.IH show ?thesis by auto
    qed
  qed
qed

lemma then_do_Inl: "m w = (Inl e, evs, w') \<Longrightarrow> then_do m k w = (Inl e, evs, w')"
  by (simp add: then_do_def)

lemma then_do_Inr:
  "m w = (Inr a, evs, w') \<Longrightarrow>
   then_do m k w = (case k a w' of (r, evs', w'') \<Rightarrow> (r, evs @ evs', w''))"
  by (simp add: then_do_def)

lemma then_do_InrD:
  assumes "then_do m k w = (Inr b, evs, w')"
  obtains a e1 w1 e2 where "m w = (Inr a, e1, w1)" "k a w1 = (Inr b, e2, w')" "evs = e1 @ e2"
  using assms by (auto simp: then_do_def split: prod.splits sum.splits)

lemma mismatch_message_GCS:
  "creative_provider_type cfg = GCS \<Longrightarrow>
   ''The creative provider GCS does not match with the video uri'' @ '' '' @ uri
     @ ''. Stopping execution. Please check.'' = mismatch_message cfg uri"
  by (simp add: mismatch_message_def)

lemma mismatch_message_YOUTUBE:
  "creative_provider_type cfg = YOUTUBE \<Longrightarrow>
   ''The creative provider YOUTUBE does not match with the video uri'' @ '' '' @ uri
     @ ''. Stopping execution. Please check.'' = mismatch_message cfg uri"
  by (simp add: mismatch_message_def)

lemma for_video_uri_mismatch:
  assumes "provider_mismatch cfg uri"
  shows "for_video_uri env cfg (uri # rest) w = (Inr (), [Log_error (mismatch_message cfg uri)], w)"
proof (cases "creative_provider_type cfg")
  case GCS
  with assms have "\<not> str_in ''gs://'' uri" by (simp add: provider_mismatch_def)
  with GCS show ?thesis
    by (simp only: for_video_uri.simps mismatch_message_GCS[OF GCS] logging_error_def emit_def
        simp_thms if_True)
next
  case YOUTUBE
  with assms have "\<not> str_in ''https://www.youtube.com'' uri" by (simp add: provider_mismatch_def)
  with YOUTUBE show ?thesis
    by (simp only: for_video_uri.simps mismatch_message_YOUTUBE[OF YOUTUBE] logging_error_def
        emit_def simp_thms if_True if_False CreativeProviderType.distinct)
qed

lemma for_video_uri_pass:
  assumes "\<not> provider_mismatch cfg uri"
  shows "for_video_uri env cfg (uri # rest) w =
         then_do (process_video env cfg uri) (\<lambda>_. for_video_uri env cfg rest) w"
  using assms by (cases "creative_provider_type cfg") (auto simp: provider_mismatch_def)

declare for_video_uri.simps(2) [simp del]

lemma for_video_uri_take:
  assumes "i < length uris" and "provider_mismatch cfg (uris ! i)"
  shows "for_video_uri env cfg uris w = for_video_uri env cfg (take (Suc i) uris) w"
  using assms
proof (induction uris arbitrary: i w)
  case Nil
  then show ?case by simp
next
  case (Cons u us)
  show ?case
  proof (cases i)
    case 0
    with Cons.prems have "provider_mismatch cfg u" by simp
    then show ?thesis using 0 by (simp only: for_video_uri_mismatch take_Suc_Cons)
  next
    case (Suc j)
    with Cons.prems have j: "j < length us" and m: "provider_mismatch cfg (us ! j)"
      by auto
    have "\<And>w. for_video_uri env cfg us w = for_video_uri env cfg (take (Suc j) us) w"
      using Cons.IH[OF j m] .
    then have eq: "for_video_uri env cfg us = for_video_uri env cfg (take (Suc j) us)"
      by (intro ext)
    show ?thesis
    proof (cases "provider_mismatch cfg u")
      case True
      then show ?thesis using Suc by (simp only: for_video_uri_mismatch take_Suc_Cons)
    next
      case False
      then show ?thesis using Suc by (simp add: for_video_uri_pass eq)
    qed
  qed
qed

lemma all_less_Suc_nth:
  "(\<forall>j < Suc i. P ((u # us) ! j)) \<longleftrightarrow> P u \<and> (\<forall>j < i. P (us ! j))"
proof
  assume a: "\<forall>j < Suc i. P ((u # us) ! j)"
  then have "P ((u # us) ! 0)" by blast
  moreover have "\<forall>j < i. P (us ! j)"
  proof (intro allI impI)
    fix j assume "j < i"
    then have "Suc j < Suc i" by simp
    with a have "P ((u # us) ! Suc j)" by blast
    then show "P (us ! j)" by simp
  qed
  ultimately show "P u \<and> (\<forall>j < i. P (us ! j))" by simp
next
  assume a: "P u \<and> (\<forall>j < i. P (us ! j))"
  show "\<forall>j < Suc i. P ((u # us) ! j)"
  proof (intro allI impI)
    fix j assume "j < Suc i"
    then show "P ((u # us) ! j)" using a by (cases j) auto
  qed
qed

lemma reaches_Suc:
  "reaches env cfg (u # us) (Suc j) w \<longleftrightarrow>
     \<not> provider_mismatch cfg u \<and> (\<forall>k < j. \<not> provider_mismatch cfg (us ! k))
     \<and> fst (for_video_uri env cfg (u # take j us) w) = Inr ()"
  unfolding reaches_def
  using all_less_Suc_nth[where P = "\<lambda>x. \<not> provider_mismatch cfg x" and i = j and u = u and us = us]
  by auto

lemma for_video_uri_split:
  assumes "i < length uris" and "provider_mismatch cfg (uris ! i)"
  shows "for_video_uri env cfg uris w =
         (case for_video_uri env cfg (take i uris) w of
            (r, evs, w') \<Rightarrow>
              if reaches env cfg uris i w
              then (Inr (), evs @ [Log_error (mismatch_message cfg (uris ! i))], w')
              else (r, evs, w'))"
  using assms
proof (induction uris arbitrary: i w)
  case Nil
  then show ?case by simp
next
  case (Cons u us)
  show ?case
  proof (cases i)
    case 0
    with Cons.prems have "provider_mismatch cfg u" by simp
    then show ?thesis using 0 by (simp add: for_video_uri_mismatch reaches_def return_def)
  next
    case (Suc j)
    with Cons.prems have j: "j < length us" and m: "provider_mismatch cfg (us ! j)"
      by auto
    note IH = Cons.IH[OF j m]
    show ?thesis
    proof (cases "provider_mismatch cfg u")
      case True
      then have "\<not> reaches env cfg (u # us) i w"
        unfolding Suc reaches_Suc by simp
      with True show ?thesis using Suc
        by (simp add: for_video_uri_mismatch split: prod.splits)
    next
      case False
      obtain r evs w1 where pv: "process_video env cfg u w = (r, evs, w1)"
        by (cases "process_video env cfg u w") auto
      show ?thesis
      proof (cases r)
        case (Inl e)
        have t: "for_video_uri env cfg (take i (u # us)) w = (Inl e, evs, w1)"
          using False pv Inl Suc by (simp add: for_video_uri_pass then_do_def)
        then have "\<not> reaches env cfg (u # us) i w" by (simp add: reaches_def)
        moreover have "for_video_uri env cfg (u # us) w = (Inl e, evs, w1)"
          using False pv Inl by (simp add: for_video_uri_pass then_do_def)
        ultimately show ?thesis using t by simp
      next
        case (Inr x)
        have whole: "for_video_uri env cfg (u # us) w =
            (case for_video_uri env cfg us w1 of (r, evs', w'') \<Rightarrow> (r, evs @ evs', w''))"
          using False pv Inr by (simp add: for_video_uri_pass then_do_def)
        have part: "for_video_uri env cfg (take i (u # us)) w =
            (case for_video_uri env cfg (take j us) w1 of (r, evs', w'') \<Rightarrow> (r, evs @ evs', w''))"
          using False pv Inr Suc by (simp add: for_video_uri_pass then_do_def)
        have r: "reaches env cfg (u # us) i w = reaches env cfg us j w1"
          unfolding Suc reaches_Suc using False part Suc
          by (auto simp: reaches_def split: prod.splits)
        show ?thesis
          unfolding whole part r IH[of w1] using Suc
          by (auto split: prod.splits)
      qed
    qed
  qed
qed


lemmas run_defs =
  for_video_uri.simps process_video_def execute_abcd_assessment_for_videos_def
  then_do_def call_def emit_def return_def print_def logging_info_def logging_error_def
  events_of_def provider_mismatch_def mismatch_message_def

lemmas scenario_defs = scenario_env_def scenario_config_def two_features_def

lemma execute_with_uris:
  assumes "get_provider env (creative_provider_type cfg) w = (Inr p, out1, w1)"
    and "get_creative_uris env p cfg w1 = (Inr uris, out2, w2)"
  shows "execute_abcd_assessment_for_videos env cfg w =
         (case for_video_uri env cfg uris w2 of
            (r, evs, w') \<Rightarrow>
              (r, [Write out1, Get_provider (creative_provider_type cfg),
                   Write out2, Get_creative_uris] @ evs, w'))"
  using assms
  by (simp add: execute_abcd_assessment_for_videos_def then_do_def call_def split: prod.splits)

section \<open>Facts about one iteration\<close>

lemma assessments_append [simp]: "assessments (xs @ ys) = assessments xs @ assessments ys"
  by (induction xs rule: assessments.induct) simp_all

lemma evaluations_append [simp]: "evaluations (xs @ ys) = evaluations xs @ evaluations ys"
  by (induction xs rule: evaluations.induct) simp_all

lemma call_InrD:
  assumes "call ev c w = (Inr a, evs, w')"
  obtains out where "c w = (Inr a, out, w')" "evs = [Write out, ev (Inr a)]"
  using assms by (auto simp: call_def split: prod.splits)

lemma emit_D: "emit e w = (r, evs, w') \<Longrightarrow> r = Inr () \<and> evs = [e] \<and> w' = w"
  by (auto simp: emit_def)

lemma return_D: "return a w = (r, evs, w') \<Longrightarrow> r = Inr a \<and> evs = [] \<and> w' = w"
  by (auto simp: return_def)

lemma emits_only_return: "emits_only P (return a)"
  by (simp add: emits_only_def events_of_def return_def)

lemma emits_only_emit: "P e \<Longrightarrow> emits_only P (emit e)"
  by (simp add: emits_only_def events_of_def emit_def)

lemma emits_only_call: "(\<And>r. P (ev r)) \<Longrightarrow> (\<And>out. P (Write out)) \<Longrightarrow> emits_only P (call ev c)"
  by (auto simp: emits_only_def events_of_def call_def split: prod.splits)

lemma emits_only_then_do:
  assumes m: "emits_only P m" and k: "\<And>a. emits_only P (k a)"
  shows "emits_only P (then_do m k)"
  unfolding emits_only_def
proof (intro allI ballI)
  fix w e
  assume e: "e \<in> set (events_of (then_do m k) w)"
  obtain r evs w' where mw: "m w = (r, evs, w')" by (cases "m w") auto
  have "\<forall>x \<in> set (events_of m w). P x" using m by (simp add: emits_only_def)
  with mw have evs: "\<forall>x \<in> set evs. P x" by (simp add: events_of_def)
  show "P e"
  proof (cases r)
    case (Inl x)
    with mw e evs show ?thesis by (simp add: events_of_def then_do_def)
  next
    case (Inr a)
    obtain r2 evs2 w2 where kw: "k a w' = (r2, evs2, w2)" by (cases "k a w'") auto
    have "\<forall>x \<in> set (events_of (k a) w'). P x" using k[of a] by (simp add: emits_only_def)
    with kw have "\<forall>x \<in> set evs2. P x" by (simp add: events_of_def)
    with Inr mw kw e evs show ?thesis by (auto simp: events_of_def then_do_def)
  qed
qed

lemma emits_only_if:
  "(c \<Longrightarrow> emits_only P m1) \<Longrightarrow> (\<not> c \<Longrightarrow> emits_only P m2) \<Longrightarrow> emits_only P (if c then m1 else m2)"
  by simp

lemmas emits_only_intros =
  emits_only_then_do emits_only_if emits_only_call emits_only_emit emits_only_return

lemma process_video_preprocessing_only_if:
  "emits_only (\<lambda>e. (\<forall>u. e = Generate_video_annotations u \<longrightarrow>
                       u = uri \<and> use_annotations cfg \<and> creative_provider_type cfg = GCS)
                 \<and> (\<forall>u. e = Trim_video u \<longrightarrow>
                       u = uri \<and> run_long_form_abcd cfg \<and> creative_provider_type cfg = GCS))
     (process_video env cfg uri)"
  unfolding process_video_def logging_info_def print_def
  by (intro emits_only_intros) simp_all

lemma events_then_do_Inr:
  "m w = (Inr a, e1, w1) \<Longrightarrow> events_of (then_do m k) w = e1 @ events_of (k a) w1"
  by (simp add: events_of_def then_do_def split: prod.splits)

lemma events_then_do_emit: "events_of (then_do (emit e) k) w = e # events_of (k ()) w"
  by (simp add: events_then_do_Inr[where a = "()" and ?e1.0 = "[e]" and ?w1.0 = w] emit_def)

lemma events_then_do_subset: "set (events_of m w) \<subseteq> set (events_of (then_do m k) w)"
  by (auto simp: events_of_def then_do_def split: prod.splits sum.splits)

lemma in_set_append2: "x \<in> set ys \<Longrightarrow> x \<in> set (xs @ ys)"
  by simp

lemma generate_if:
  assumes "use_annotations cfg \<and> creative_provider_type cfg = GCS"
  shows "Generate_video_annotations uri \<in> set (events_of (process_video env cfg uri) w)"
proof -
  have t: "Generate_video_annotations uri
        \<in> set (events_of (if use_annotations cfg \<and> creative_provider_type cfg = GCS
              then call (\<lambda>_. Generate_video_annotations uri)
                        (generate_video_annotations env cfg uri)
              else return ()) w)"
    using assms by (simp add: events_of_def call_def split: prod.splits)
  show ?thesis
    unfolding process_video_def logging_info_def print_def
    apply (simp only: events_then_do_emit)
    apply (rule list.set_intros(2))+
    apply (rule subsetD[OF events_then_do_subset])
    apply (rule t)
    done
qed

lemma events_then_do_Inl:
  "m w = (Inl e, e1, w1) \<Longrightarrow> events_of (then_do m k) w = e1"
  by (simp add: events_of_def then_do_def)

lemma trim_if:
  assumes "run_long_form_abcd cfg \<and> creative_provider_type cfg = GCS"
    and "use_annotations cfg \<longrightarrow>
           (\<forall>e out w1. generate_video_annotations env cfg uri w \<noteq> (Inl e, out, w1))"
  shows "Trim_video uri \<in> set (events_of (process_video env cfg uri) w)"
proof -
  define gate1 :: "(unit, 'a, 'b) comp" where "gate1 =
     (if use_annotations cfg \<and> creative_provider_type cfg = GCS
              then call (\<lambda>_. Generate_video_annotations uri)
                        (generate_video_annotations env cfg uri)
              else return ())"
  obtain e1 w1 where g1: "gate1 w = (Inr (), e1, w1)"
  proof (cases "use_annotations cfg \<and> creative_provider_type cfg = GCS")
    case False
    then have "gate1 w = (Inr (), [], w)" by (auto simp: gate1_def return_def)
    then show ?thesis by (rule that)
  next
    case True
    obtain r out w1 where g: "generate_video_annotations env cfg uri w = (r, out, w1)"
      by (cases "generate_video_annotations env cfg uri w") auto
    with True assms(2) obtain u where "r = Inr u" by (cases r) auto
    with g True have "gate1 w = (Inr (), [Write out, Generate_video_annotations uri], w1)"
      by (simp add: gate1_def call_def)
    then show ?thesis by (rule that)
  qed
  have t: "Trim_video uri
      \<in> set (events_of (if run_long_form_abcd cfg \<and> creative_provider_type cfg = GCS
              then call (\<lambda>_. Trim_video uri) (trim_video env cfg uri)
              else return ()) w1)"
    using assms(1) by (simp add: events_of_def call_def split: prod.splits)
  show ?thesis
    unfolding process_video_def logging_info_def print_def
    apply (simp only: events_then_do_emit)
    apply (fold gate1_def)
    apply (subst events_then_do_Inr[of gate1 w "()" e1 w1, OF g1])
    apply (rule list.set_intros(2))+
    apply (rule in_set_append2)
    apply (rule subsetD[OF events_then_do_subset])
    apply (rule t)
    done
qed

lemma no_trim_after_failed_annotations:
  assumes "use_annotations cfg \<and> creative_provider_type cfg = GCS"
    and "generate_video_annotations env cfg uri w = (Inl e, out, w1)"
  shows "Trim_video u \<notin> set (events_of (process_video env cfg uri) w)"
proof -
  define gate1 :: "(unit, 'a, 'b) comp" where "gate1 =
     (if use_annotations cfg \<and> creative_provider_type cfg = GCS
              then call (\<lambda>_. Generate_video_annotations uri)
                        (generate_video_annotations env cfg uri)
              else return ())"
  have g1: "gate1 w = (Inl e, [Write out, Generate_video_annotations uri], w1)"
    using assms by (simp add: gate1_def call_def)
  show ?thesis
    unfolding process_video_def logging_info_def print_def
    apply (simp only: events_then_do_emit)
    apply (fold gate1_def)
    apply (subst events_then_do_Inl[of gate1 w e "[Write out, Generate_video_annotations uri]" w1,
                                    OF g1])
    apply simp
    done
qed

lemma ends_with_cleanup_call:
  "ends_with_cleanup (call (\<lambda>_. Remove_local_video_files) c)"
  by (auto simp: ends_with_cleanup_def call_def split: prod.splits)

lemma ends_with_cleanup_then_do:
  assumes m: "emits_only (\<lambda>e. e \<noteq> Remove_local_video_files) m"
    and k: "\<And>a. ends_with_cleanup (k a)"
  shows "ends_with_cleanup (then_do m k)"
  unfolding ends_with_cleanup_def
proof (intro allI impI)
  fix w evs w'
  assume "then_do m k w = (Inr (), evs, w')"
  then obtain a e1 w1 e2 where mw: "m w = (Inr a, e1, w1)"
    and kw: "k a w1 = (Inr (), e2, w')" and evs: "evs = e1 @ e2"
    by (rule then_do_InrD)
  have "\<forall>x \<in> set (events_of m w). x \<noteq> Remove_local_video_files"
    using m by (simp add: emits_only_def)
  with mw have "Remove_local_video_files \<notin> set e1" by (auto simp: events_of_def)
  then have c1: "count_list e1 Remove_local_video_files = 0" by simp
  from k[of a] kw have l2: "last e2 = Remove_local_video_files"
    and c2: "count_list e2 Remove_local_video_files = 1"
    by (auto simp: ends_with_cleanup_def)
  from c2 have "e2 \<noteq> []" by auto
  with l2 c1 c2 evs
  show "last evs = Remove_local_video_files \<and> count_list evs Remove_local_video_files = 1"
    by simp
qed

lemma process_video_ends_with_cleanup: "ends_with_cleanup (process_video env cfg uri)"
  unfolding process_video_def logging_info_def print_def
  by (intro ends_with_cleanup_then_do ends_with_cleanup_call emits_only_intros) simp_all

section \<open>Two runs\<close>










section \<open>Facts about the run wrapper\<close>

lemma written_append [simp]: "written (xs @ ys) = written xs @ written ys"
  by (induction xs rule: written.induct) simp_all

lemma analyse_block_valid:
  assumes "build_custom_config env a1 a2 a3 a4 a5 a6 w = (Inr cfg, out, w1)"
    and "\<not> invalid_brand_metadata env cfg"
  shows "analyse_block env a1 a2 a3 a4 a5 a6 w =
     (case (if truthy (video_uris cfg)
            then then_do (execute_abcd_assessment_for_videos env cfg)
                   (\<lambda>_. print (''Finished ABCD assessment.'' @ newline))
            else print (''There are no videos to process.'' @ newline)) w1 of
        (Inl e, evs, w2) \<Rightarrow>
          (Inl e, [Write out, Build_custom_config,
                   Write (''Starting ABCD assessment...'' @ newline @ newline)] @ evs, w2)
      | (Inr u, evs, w2) \<Rightarrow>
          (Inr None, [Write out, Build_custom_config,
                   Write (''Starting ABCD assessment...'' @ newline @ newline)] @ evs
                  @ [Write (''ABCD assessment took ''
                            @ format_2f env ((time_time env w2 - time_time env w1) / 60)
                            @ '' mins.'' @ newline @ newline)], w2))"
  using assms
  by (simp add: analyse_block_def then_do_def call_def print_def emit_def return_def Let_def
      split: prod.splits sum.splits)

lemmas analyse_defs = analyse_def analyse_block_def truthy_def newline_def

section \<open>The claims\<close>

text \<open>
  C1. When the locator at index \<open>i\<close> of the list that the provider returns fails the
  consistency check, the run is the run on the list cut after index \<open>i\<close>: no locator
  at a greater index takes part in it. When the loop gets as far as index \<open>i\<close>, the
  orchestrator returns normally and the last thing it does is to log the error for that
  locator.
\<close>

theorem mismatch_stops_the_batch:
  assumes "get_provider env (creative_provider_type cfg) w = (Inr p, out1, w1)"
    and "get_creative_uris env p cfg w1 = (Inr uris, out2, w2)"
    and "i < length uris"
    and "provider_mismatch cfg (uris ! i)"
  shows "execute_abcd_assessment_for_videos env cfg w =
           (case for_video_uri env cfg (take (Suc i) uris) w2 of
              (r, evs, w') \<Rightarrow>
                (r, [Write out1, Get_provider (creative_provider_type cfg),
                     Write out2, Get_creative_uris] @ evs, w'))
       \<and> (reaches env cfg uris i w2 \<longrightarrow>
            fst (execute_abcd_assessment_for_videos env cfg w) = Inr ()
            \<and> last (events_of (execute_abcd_assessment_for_videos env cfg) w)
                = Log_error (mismatch_message cfg (uris ! i)))"
proof (intro conjI impI)
  show "execute_abcd_assessment_for_videos env cfg w =
           (case for_video_uri env cfg (take (Suc i) uris) w2 of
              (r, evs, w') \<Rightarrow>
                (r, [Write out1, Get_provider (creative_provider_type cfg),
                     Write out2, Get_creative_uris] @ evs, w'))"
    unfolding execute_with_uris[OF assms(1,2)] for_video_uri_take[OF assms(3,4), of env w2] ..
next
  assume r: "reaches env cfg uris i w2"
  obtain r0 evs0 w0 where t: "for_video_uri env cfg (take i uris) w2 = (r0, evs0, w0)"
    by (cases "for_video_uri env cfg (take i uris) w2") auto
  have whole: "for_video_uri env cfg uris w2 =
      (Inr (), evs0 @ [Log_error (mismatch_message cfg (uris ! i))], w0)"
    using for_video_uri_split[OF assms(3,4), of env w2] r t by simp
  show "fst (execute_abcd_assessment_for_videos env cfg w) = Inr ()"
    unfolding execute_with_uris[OF assms(1,2)] whole by simp
  show "last (events_of (execute_abcd_assessment_for_videos env cfg) w)
          = Log_error (mismatch_message cfg (uris ! i))"
    unfolding events_of_def execute_with_uris[OF assms(1,2)] whole by simp
qed

theorem mismatch_stops_the_batch_witness:
  "get_provider (scenario_env two_features)
     (creative_provider_type (scenario_config three_locators)) 0 = (Inr (), [], Suc 0)
   \<and> get_creative_uris (scenario_env two_features) () (scenario_config three_locators) (Suc 0)
       = (Inr three_locators, [], Suc (Suc 0))
   \<and> Suc 0 < length three_locators
   \<and> provider_mismatch (scenario_config three_locators) (three_locators ! Suc 0)
   \<and> reaches (scenario_env two_features) (scenario_config three_locators) three_locators
         (Suc 0) (Suc (Suc 0))
   \<and> fst (execute_abcd_assessment_for_videos (scenario_env two_features)
              (scenario_config three_locators) 0) = Inr ()
   \<and> last (events_of (execute_abcd_assessment_for_videos (scenario_env two_features)
                        (scenario_config three_locators)) 0)
       = Log_error (mismatch_message (scenario_config three_locators) (three_locators ! Suc 0))"
proof -
  have h1: "get_provider (scenario_env two_features)
     (creative_provider_type (scenario_config three_locators)) 0 = (Inr (), [], Suc 0)"
    by (simp add: scenario_defs)
  have h2: "get_creative_uris (scenario_env two_features) () (scenario_config three_locators)
       (Suc 0) = (Inr three_locators, [], Suc (Suc 0))"
    by (simp add: scenario_defs)
  have h3: "Suc 0 < length three_locators"
    by (simp add: three_locators_def)
  have h4: "provider_mismatch (scenario_config three_locators) (three_locators ! Suc 0)"
    by (simp add: provider_mismatch_def scenario_defs three_locators_def)
  have h5: "reaches (scenario_env two_features) (scenario_config three_locators) three_locators
         (Suc 0) (Suc (Suc 0))"
    by (simp add: reaches_def run_defs scenario_defs three_locators_def)
  from mismatch_stops_the_batch[OF h1 h2 h3 h4] h1 h2 h3 h4 h5 show ?thesis
    by blast
qed

text \<open>
  C2, as the code has it. The check is Python's \<open>in\<close>: a locator passes, and its
  iteration goes on to process it, exactly when it contains the text of its provider
  (\<open>gs://\<close>, \<open>https://www.youtube.com\<close>) somewhere, at the start or further in;
  otherwise the loop logs the error and stops.
\<close>

theorem locator_check_is_containment:
  "(if \<exists>pre suf. uri = pre @ expected_text (creative_provider_type cfg) @ suf
    then for_video_uri env cfg (uri # rest) w =
           then_do (process_video env cfg uri) (\<lambda>_. for_video_uri env cfg rest) w
    else for_video_uri env cfg (uri # rest) w =
           (Inr (), [Log_error (mismatch_message cfg uri)], w))"
proof -
  have "provider_mismatch cfg uri \<longleftrightarrow>
        \<not> (\<exists>pre suf. uri = pre @ expected_text (creative_provider_type cfg) @ suf)"
    unfolding provider_mismatch_def str_in_iff
    by (cases "creative_provider_type cfg") simp_all
  then show ?thesis
    using for_video_uri_mismatch[of cfg uri env rest w] for_video_uri_pass[of cfg uri env rest w]
    by (simp only: split: if_splits) blast
qed

theorem locator_check_is_containment_witness:
  "(\<exists>pre suf. padded_locator
       = pre @ expected_text (creative_provider_type (scenario_config [padded_locator])) @ suf)
   \<and> for_video_uri (scenario_env two_features) (scenario_config [padded_locator])
         [padded_locator] 0 =
       then_do (process_video (scenario_env two_features) (scenario_config [padded_locator])
                  padded_locator)
         (\<lambda>_. for_video_uri (scenario_env two_features) (scenario_config [padded_locator]) []) 0"
proof -
  have "padded_locator = '' '' @ ''gs://'' @ ''bucket/video1.mp4''"
    by (simp add: padded_locator_def)
  then have h: "\<exists>pre suf. padded_locator
       = pre @ expected_text (creative_provider_type (scenario_config [padded_locator])) @ suf"
    unfolding scenario_config_def by (simp del: append.simps) blast
  from locator_check_is_containment[of padded_locator "scenario_config [padded_locator]"
         "scenario_env two_features" "[]" 0] h
  show ?thesis by simp
qed

theorem prefix_check_counterexample:
  "\<not> prefix ''gs://'' padded_locator
   \<and> creative_provider_type (scenario_config [padded_locator]) = GCS
   \<and> hd (events_of (for_video_uri (scenario_env two_features) (scenario_config [padded_locator])
                      [padded_locator]) 0)
       = Log_info (''Processing ABCD Assessment for video '' @ padded_locator @ ''...'')
   \<and> Generate_video_annotations padded_locator
       \<in> set (events_of (for_video_uri (scenario_env two_features)
                         (scenario_config [padded_locator]) [padded_locator]) 0)"
  by (simp add: run_defs scenario_defs padded_locator_def)

text \<open>
  C3, as the code has it. The handler is \<open>except Exception\<close>, and it runs after the
  redirection has ended. When a step of the run (the orchestrator among them) raises an
  instance of \<open>Exception\<close> and the two calls of the handler return, \<open>analyse\<close> returns
  the dictionary with the one key \<open>logs\<close>, whose value is what the run had written to
  the buffer followed by the traceback; the line \<open>ERROR: ...\<close> with the message goes
  to the standard output, not to the buffer. \<open>analyse\<close> raises in two cases only: the
  exception of the run is not an instance of \<open>Exception\<close>, or one of the two calls of
  the handler raises. An exception of the orchestrator reaches the handler as it is, with
  the text captured so far.
\<close>

theorem analyse_contains_exceptions:
  "(analyse_block env a1 a2 a3 a4 a5 a6 w = (Inl ex, evs, w') \<and> is_Exception ex
      \<and> stdout_print env ''ERROR:'' ex w' = (Inr (), printed, v1)
      \<and> print_exc env ex v1 = (Inr (), tb, v2) \<longrightarrow>
      analyse env a1 a2 a3 a4 a5 a6 w =
        (Inr [(''logs'', written evs @ tb)],
         filter (\<lambda>e. \<not> is_Write e) evs @ [Write printed], v2))
   \<and> (fst (analyse env a1 a2 a3 a4 a5 a6 w) = Inl e \<longrightarrow>
        (fst (analyse_block env a1 a2 a3 a4 a5 a6 w) = Inl e \<and> \<not> is_Exception e)
        \<or> (\<exists>x. fst (analyse_block env a1 a2 a3 a4 a5 a6 w) = Inl x \<and> is_Exception x
              \<and> (fst (stdout_print env ''ERROR:'' x
                         (snd (snd (analyse_block env a1 a2 a3 a4 a5 a6 w)))) = Inl e
                  \<or> fst (print_exc env x
                           (snd (snd (stdout_print env ''ERROR:'' x
                              (snd (snd (analyse_block env a1 a2 a3 a4 a5 a6 w))))))) = Inl e)))
   \<and> (build_custom_config env a1 a2 a3 a4 a5 a6 w = (Inr cfg, out, w1)
        \<and> \<not> invalid_brand_metadata env cfg \<and> truthy (video_uris cfg)
        \<and> fst (execute_abcd_assessment_for_videos env cfg w1) = Inl ex \<longrightarrow>
      fst (analyse_block env a1 a2 a3 a4 a5 a6 w) = Inl ex
      \<and> written (events_of (analyse_block env a1 a2 a3 a4 a5 a6) w) =
          out @ ''Starting ABCD assessment...'' @ newline @ newline
          @ written (events_of (execute_abcd_assessment_for_videos env cfg) w1))"
proof (intro conjI impI)
  assume "analyse_block env a1 a2 a3 a4 a5 a6 w = (Inl ex, evs, w') \<and> is_Exception ex
      \<and> stdout_print env ''ERROR:'' ex w' = (Inr (), printed, v1)
      \<and> print_exc env ex v1 = (Inr (), tb, v2)"
  then show "analyse env a1 a2 a3 a4 a5 a6 w =
        (Inr [(''logs'', written evs @ tb)],
         filter (\<lambda>e. \<not> is_Write e) evs @ [Write printed], v2)"
    by (simp add: analyse_def)
next
  assume a: "fst (analyse env a1 a2 a3 a4 a5 a6 w) = Inl e"
  obtain r evs w' where b: "analyse_block env a1 a2 a3 a4 a5 a6 w = (r, evs, w')"
    by (cases "analyse_block env a1 a2 a3 a4 a5 a6 w") auto
  show "(fst (analyse_block env a1 a2 a3 a4 a5 a6 w) = Inl e \<and> \<not> is_Exception e)
        \<or> (\<exists>x. fst (analyse_block env a1 a2 a3 a4 a5 a6 w) = Inl x \<and> is_Exception x
              \<and> (fst (stdout_print env ''ERROR:'' x
                         (snd (snd (analyse_block env a1 a2 a3 a4 a5 a6 w)))) = Inl e
                  \<or> fst (print_exc env x
                           (snd (snd (stdout_print env ''ERROR:'' x
                              (snd (snd (analyse_block env a1 a2 a3 a4 a5 a6 w))))))) = Inl e))"
  proof (cases r)
    case (Inr v)
    with a b show ?thesis by (cases v) (simp_all add: analyse_def)
  next
    case (Inl x)
    show ?thesis
    proof (cases "is_Exception x")
      case False
      with a b Inl show ?thesis by (simp add: analyse_def)
    next
      case True
      obtain r1 printed v1 where p: "stdout_print env ''ERROR:'' x w' = (r1, printed, v1)"
        by (cases "stdout_print env ''ERROR:'' x w'") auto
      show ?thesis
      proof (cases r1)
        case (Inl e1)
        with a b \<open>r = Inl x\<close> True p have "e1 = e" by (simp add: analyse_def)
        with b \<open>r = Inl x\<close> True p Inl show ?thesis by auto
      next
        case (Inr u1)
        obtain r2 tb v2 where t: "print_exc env x v1 = (r2, tb, v2)"
          by (cases "print_exc env x v1") auto
        show ?thesis
        proof (cases r2)
          case (Inl e2)
          with a b \<open>r = Inl x\<close> True p Inr t have "e2 = e" by (simp add: analyse_def)
          with b \<open>r = Inl x\<close> True p Inr t Inl show ?thesis by auto
        next
          case (Inr u2)
          with a b \<open>r = Inl x\<close> True p \<open>r1 = Inr u1\<close> t show ?thesis
            by (simp add: analyse_def)
        qed
      qed
    qed
  qed
next
  assume a: "build_custom_config env a1 a2 a3 a4 a5 a6 w = (Inr cfg, out, w1)
        \<and> \<not> invalid_brand_metadata env cfg \<and> truthy (video_uris cfg)
        \<and> fst (execute_abcd_assessment_for_videos env cfg w1) = Inl ex"
  then obtain evs w2 where e: "execute_abcd_assessment_for_videos env cfg w1 = (Inl ex, evs, w2)"
    by (cases "execute_abcd_assessment_for_videos env cfg w1") auto
  have b: "analyse_block env a1 a2 a3 a4 a5 a6 w =
      (Inl ex, [Write out, Build_custom_config,
                Write (''Starting ABCD assessment...'' @ newline @ newline)] @ evs, w2)"
    using a e by (simp add: analyse_block_valid then_do_def)
  show "fst (analyse_block env a1 a2 a3 a4 a5 a6 w) = Inl ex"
    using b by simp
  show "written (events_of (analyse_block env a1 a2 a3 a4 a5 a6) w) =
          out @ ''Starting ABCD assessment...'' @ newline @ newline
          @ written (events_of (execute_abcd_assessment_for_videos env cfg) w1)"
    using b e by (simp add: events_of_def)
qed

theorem analyse_contains_exceptions_witness:
  "analyse_block (scenario_env (Inl service_error)) (Some [first_locator])
          (Some [''Acme'']) None None None None 0
     = (Inl service_error,
        events_of (analyse_block (scenario_env (Inl service_error)) (Some [first_locator])
          (Some [''Acme'']) None None None None) 0, 5)
   \<and> is_Exception service_error
   \<and> stdout_print (scenario_env (Inl service_error)) ''ERROR:'' service_error 5
       = (Inr (), ''ERROR: quota'' @ newline, 5)
   \<and> print_exc (scenario_env (Inl service_error)) service_error 5
       = (Inr (), ''Traceback (most recent call last):'' @ newline
                  @ ''RuntimeError: quota'' @ newline, 5)
   \<and> fst (analyse (scenario_env (Inl service_error)) (Some [first_locator])
          (Some [''Acme'']) None None None None 0)
       = Inr [(''logs'', written (events_of (analyse_block (scenario_env (Inl service_error))
                  (Some [first_locator]) (Some [''Acme'']) None None None None) 0)
                @ ''Traceback (most recent call last):'' @ newline
                @ ''RuntimeError: quota'' @ newline)]"
proof -
  have h1: "analyse_block (scenario_env (Inl service_error)) (Some [first_locator])
          (Some [''Acme'']) None None None None 0
     = (Inl service_error,
        events_of (analyse_block (scenario_env (Inl service_error)) (Some [first_locator])
          (Some [''Acme'']) None None None None) 0, 5)"
    by (simp add: analyse_defs run_defs scenario_defs first_locator_def)
  have h2: "is_Exception service_error"
    by (simp add: service_error_def)
  have h3: "stdout_print (scenario_env (Inl service_error)) ''ERROR:'' service_error 5
       = (Inr (), ''ERROR: quota'' @ newline, 5)"
    by (simp add: scenario_defs service_error_def)
  have h4: "print_exc (scenario_env (Inl service_error)) service_error 5
       = (Inr (), ''Traceback (most recent call last):'' @ newline
                  @ ''RuntimeError: quota'' @ newline, 5)"
    by (simp add: scenario_defs service_error_def)
  from analyse_contains_exceptions[of "scenario_env (Inl service_error)" "Some [first_locator]"
         "Some [''Acme'']" None None None None 0 service_error
         "events_of (analyse_block (scenario_env (Inl service_error)) (Some [first_locator])
            (Some [''Acme'']) None None None None) 0" 5
         "''ERROR: quota'' @ newline" 5
         "''Traceback (most recent call last):'' @ newline @ ''RuntimeError: quota'' @ newline" 5]
       h1 h2 h3 h4
  show ?thesis by simp
qed

text \<open>
  Three runs against the claim as it was written. A \<open>KeyboardInterrupt\<close> of the
  evaluation service leaves \<open>analyse\<close>. With a standard output whose other side is
  closed, the \<open>print\<close> of the handler raises and its \<open>BrokenPipeError\<close>, an instance of
  \<open>Exception\<close>, leaves \<open>analyse\<close>. And after a \<open>SyntaxError\<close> the returned logs
  hold the traceback but not the message \<open>str(ex)\<close>.
\<close>

theorem analyse_never_raises_counterexample:
  "fst (analyse (scenario_env (Inl keyboard_interrupt)) (Some [first_locator])
          (Some [''Acme'']) None None None None 0) = Inl keyboard_interrupt
   \<and> is_Exception broken_pipe
   \<and> fst (analyse broken_stdout_env (Some [first_locator])
          (Some [''Acme'']) None None None None 0) = Inl broken_pipe
   \<and> is_Exception syntax_error
   \<and> fst (analyse (scenario_env (Inl syntax_error)) (Some [first_locator])
          (Some [''Acme'']) None None None None 0) = Inr [(''logs'', syntax_error_logs)]
   \<and> \<not> str_in (exc_str syntax_error) syntax_error_logs"
  by (simp add: analyse_defs run_defs scenario_defs first_locator_def keyboard_interrupt_def
      broken_stdout_env_def broken_pipe_def service_error_def syntax_error_def
      syntax_error_logs_def)

text \<open>
  C4. When the brand metadata of the configuration is invalid, \<open>analyse\<close> returns the
  dictionary with the keys \<open>error\<close> and \<open>logs\<close>; the logs end with the "Invalid
  brand metadata" line; building the configuration is the only call that was made, and
  the outside world is as that call left it: neither the orchestrator nor any of its
  collaborators ran.
\<close>

theorem invalid_brand_metadata_stops_the_run:
  assumes "build_custom_config env a1 a2 a3 a4 a5 a6 w = (Inr cfg, out, w1)"
    and "invalid_brand_metadata env cfg"
  shows "analyse env a1 a2 a3 a4 a5 a6 w =
           (Inr [(''error'', ''Invalid brand metadata''),
                 (''logs'', out @ ''Invalid brand metadata. Please provide brand details.''
                            @ newline @ newline)],
            [Build_custom_config], w1)"
  using assms
  by (simp add: analyse_def analyse_block_def then_do_def call_def print_def emit_def return_def)

theorem invalid_brand_metadata_stops_the_run_witness:
  "build_custom_config (scenario_env two_features) (Some [first_locator]) None None None None
     None 0 = (Inr ((scenario_config [first_locator])\<lparr>brand_name := None\<rparr>), [], 0)
   \<and> invalid_brand_metadata (scenario_env two_features)
       ((scenario_config [first_locator])\<lparr>brand_name := None\<rparr>)
   \<and> analyse (scenario_env two_features) (Some [first_locator]) None None None None None 0 =
       (Inr [(''error'', ''Invalid brand metadata''),
             (''logs'', [] @ ''Invalid brand metadata. Please provide brand details.''
                        @ newline @ newline)],
        [Build_custom_config], 0)"
proof -
  have h1: "build_custom_config (scenario_env two_features) (Some [first_locator]) None None
     None None None 0 = (Inr ((scenario_config [first_locator])\<lparr>brand_name := None\<rparr>), [], 0)"
    by (simp add: scenario_defs)
  have h2: "invalid_brand_metadata (scenario_env two_features)
       ((scenario_config [first_locator])\<lparr>brand_name := None\<rparr>)"
    by (simp add: scenario_defs)
  from invalid_brand_metadata_stops_the_run[OF h1 h2] h1 h2 show ?thesis by blast
qed

text \<open>
  C5, as the code has it, for a video whose iteration the loop runs. In the events of the
  iteration, the annotation generator is called exactly for this locator and exactly when
  \<open>use_annotations\<close> is set and the provider is cloud storage; the trimmer is called
  exactly for this locator and exactly when \<open>run_long_form_abcd\<close> is set, the provider
  is cloud storage and the annotation generator, where it was called, did not raise; with
  the video-platform provider neither is ever called.
\<close>

theorem preprocessing_gates:
  "(\<forall>u. Generate_video_annotations u \<in> set (events_of (process_video env cfg uri) w) \<longleftrightarrow>
        u = uri \<and> use_annotations cfg \<and> creative_provider_type cfg = GCS)
   \<and> (\<forall>u. Trim_video u \<in> set (events_of (process_video env cfg uri) w) \<longleftrightarrow>
        u = uri \<and> run_long_form_abcd cfg \<and> creative_provider_type cfg = GCS
        \<and> (use_annotations cfg \<longrightarrow>
             (\<forall>e out w1. generate_video_annotations env cfg uri w \<noteq> (Inl e, out, w1))))
   \<and> (creative_provider_type cfg = YOUTUBE \<longrightarrow>
        (\<forall>u. Generate_video_annotations u \<notin> set (events_of (process_video env cfg uri) w)
           \<and> Trim_video u \<notin> set (events_of (process_video env cfg uri) w)))"
proof -
  have only: "\<forall>e \<in> set (events_of (process_video env cfg uri) w).
      (\<forall>u. e = Generate_video_annotations u \<longrightarrow>
                       u = uri \<and> use_annotations cfg \<and> creative_provider_type cfg = GCS)
                 \<and> (\<forall>u. e = Trim_video u \<longrightarrow>
                       u = uri \<and> run_long_form_abcd cfg \<and> creative_provider_type cfg = GCS)"
    using process_video_preprocessing_only_if[of uri cfg env] unfolding emits_only_def by blast
  show ?thesis
  proof (intro conjI allI impI)
    fix u
    show "Generate_video_annotations u \<in> set (events_of (process_video env cfg uri) w) \<longleftrightarrow>
        u = uri \<and> use_annotations cfg \<and> creative_provider_type cfg = GCS"
      using only generate_if[of cfg uri env w] by blast
  next
    fix u
    show "Trim_video u \<in> set (events_of (process_video env cfg uri) w) \<longleftrightarrow>
        u = uri \<and> run_long_form_abcd cfg \<and> creative_provider_type cfg = GCS
        \<and> (use_annotations cfg \<longrightarrow>
             (\<forall>e out w1. generate_video_annotations env cfg uri w \<noteq> (Inl e, out, w1)))"
    proof
      assume t: "Trim_video u \<in> set (events_of (process_video env cfg uri) w)"
      with only have g: "u = uri \<and> run_long_form_abcd cfg \<and> creative_provider_type cfg = GCS"
        by blast
      have "use_annotations cfg \<longrightarrow>
             (\<forall>e out w1. generate_video_annotations env cfg uri w \<noteq> (Inl e, out, w1))"
        using t g no_trim_after_failed_annotations[of cfg env uri w _ _ _ u] by blast
      with g show "u = uri \<and> run_long_form_abcd cfg \<and> creative_provider_type cfg = GCS
        \<and> (use_annotations cfg \<longrightarrow>
             (\<forall>e out w1. generate_video_annotations env cfg uri w \<noteq> (Inl e, out, w1)))"
        by blast
    next
      assume "u = uri \<and> run_long_form_abcd cfg \<and> creative_provider_type cfg = GCS
        \<and> (use_annotations cfg \<longrightarrow>
             (\<forall>e out w1. generate_video_annotations env cfg uri w \<noteq> (Inl e, out, w1)))"
      then show "Trim_video u \<in> set (events_of (process_video env cfg uri) w)"
        using trim_if[of cfg env uri w] by blast
    qed
  next
    fix u
    assume "creative_provider_type cfg = YOUTUBE"
    then show "Generate_video_annotations u \<notin> set (events_of (process_video env cfg uri) w)"
      using only by auto
  next
    fix u
    assume "creative_provider_type cfg = YOUTUBE"
    then show "Trim_video u \<notin> set (events_of (process_video env cfg uri) w)"
      using only by auto
  qed
qed

theorem preprocessing_gates_witness:
  "use_annotations (scenario_config [first_locator])
   \<and> (\<forall>e out w1. generate_video_annotations (scenario_env two_features)
        (scenario_config [first_locator]) first_locator 0 \<noteq> (Inl e, out, w1))
   \<and> Trim_video first_locator
       \<in> set (events_of (process_video (scenario_env two_features)
                 (scenario_config [first_locator]) first_locator) 0)
   \<and> creative_provider_type youtube_config = YOUTUBE
   \<and> Trim_video youtube_locator
       \<notin> set (events_of (process_video (scenario_env two_features) youtube_config
                 youtube_locator) 0)"
proof -
  have h0: "use_annotations (scenario_config [first_locator])"
    by (simp add: scenario_defs)
  have h1: "\<forall>e out w1. generate_video_annotations (scenario_env two_features)
        (scenario_config [first_locator]) first_locator 0 \<noteq> (Inl e, out, w1)"
    by (simp add: scenario_defs)
  have h2: "creative_provider_type youtube_config = YOUTUBE"
    by (simp add: youtube_config_def scenario_defs)
  have g: "run_long_form_abcd (scenario_config [first_locator])
      \<and> creative_provider_type (scenario_config [first_locator]) = GCS"
    by (simp add: scenario_defs)
  from preprocessing_gates[of "scenario_env two_features" "scenario_config [first_locator]"
         first_locator 0]
       preprocessing_gates[of "scenario_env two_features" youtube_config youtube_locator 0]
       h0 h1 h2 g
  show ?thesis by blast
qed

text \<open>
  Two runs against the claim as it was written. In the batch of three locators the third
  is a well-formed cloud-storage locator and both flags are set, yet it is neither
  annotated nor trimmed, the loop having stopped at the second. And where the annotation
  generator raises, the video is not trimmed although the long-form flag is set and the
  provider is cloud storage.
\<close>

theorem preprocessing_of_every_video_counterexample:
  "use_annotations (scenario_config three_locators)
   \<and> run_long_form_abcd (scenario_config three_locators)
   \<and> creative_provider_type (scenario_config three_locators) = GCS
   \<and> three_locators ! 2 = ''gs://bucket/video3.mp4''
   \<and> Generate_video_annotations ''gs://bucket/video3.mp4''
       \<notin> set (events_of (execute_abcd_assessment_for_videos (scenario_env two_features)
                          (scenario_config three_locators)) 0)
   \<and> Trim_video ''gs://bucket/video3.mp4''
       \<notin> set (events_of (execute_abcd_assessment_for_videos (scenario_env two_features)
                          (scenario_config three_locators)) 0)
   \<and> run_long_form_abcd (scenario_config [first_locator])
   \<and> creative_provider_type (scenario_config [first_locator]) = GCS
   \<and> \<not> provider_mismatch (scenario_config [first_locator]) first_locator
   \<and> Generate_video_annotations first_locator
       \<in> set (events_of (execute_abcd_assessment_for_videos failing_annotations_env
                          (scenario_config [first_locator])) 0)
   \<and> Trim_video first_locator
       \<notin> set (events_of (execute_abcd_assessment_for_videos failing_annotations_env
                          (scenario_config [first_locator])) 0)"
  by (simp add: run_defs scenario_defs three_locators_def first_locator_def
      failing_annotations_env_def service_error_def)

text \<open>
  C6. An iteration that completes builds exactly one assessment record, for its locator,
  brand name and configuration. The evaluation service is called once for each enabled
  track and for no other, and the two feature fields of the record are what those calls
  returned; the field of a disabled track is the empty sequence.
\<close>

theorem assessment_has_both_tracks:
  assumes "process_video env cfg uri w = (Inr (), evs, w')"
  shows "\<exists>va. assessments evs = [va] \<and> video_uri va = uri \<and> brand_name_va va = brand_name cfg
     \<and> config va = cfg
     \<and> evaluations evs =
         (if run_long_form_abcd cfg
          then [(uri, LONG_FORM_ABCD, Inr (long_form_abcd_evaluated_features va))] else [])
         @ (if run_shorts cfg
          then [(uri, SHORTS, Inr (shorts_evaluated_features va))] else [])
     \<and> (\<not> run_long_form_abcd cfg \<longrightarrow> long_form_abcd_evaluated_features va = [])
     \<and> (\<not> run_shorts cfg \<longrightarrow> shorts_evaluated_features va = [])"
  using assms unfolding process_video_def
  apply (elim then_do_InrD)
  apply (simp only: logging_info_def print_def)
  apply (auto dest!: emit_D return_D elim!: call_InrD split: if_splits)
  done

theorem assessment_has_both_tracks_witness:
  "fst (process_video (scenario_env two_features) (scenario_config [first_locator])
            first_locator 0) = Inr ()
   \<and> assessments (events_of (process_video (scenario_env two_features)
        (scenario_config [first_locator]) first_locator) 0)
      = [\<lparr>brand_name_va = Some ''Acme'', video_uri = first_locator,
          long_form_abcd_evaluated_features = [''f1'', ''f2''],
          shorts_evaluated_features = [], config = scenario_config [first_locator]\<rparr>]"
proof -
  have h: "process_video (scenario_env two_features) (scenario_config [first_locator])
            first_locator 0 =
    (Inr (), events_of (process_video (scenario_env two_features)
        (scenario_config [first_locator]) first_locator) 0, 5)"
    by (simp add: run_defs scenario_defs first_locator_def)
  from assessment_has_both_tracks[OF h] h show ?thesis
    by (simp add: run_defs scenario_defs first_locator_def)
qed

text \<open>
  C7, as the code has it. In an iteration whose locator passes the consistency check and
  in which no collaborator raises, the cleanup is called exactly once, it is the last
  thing the iteration does, whatever the flags and the evaluation results, and the loop
  goes on with the remaining locators from the world that the cleanup left.
\<close>

theorem cleanup_closes_a_completed_iteration:
  assumes "\<not> provider_mismatch cfg uri"
    and "fst (process_video env cfg uri w) = Inr ()"
  shows "last (events_of (process_video env cfg uri) w) = Remove_local_video_files
       \<and> count_list (events_of (process_video env cfg uri) w) Remove_local_video_files = 1
       \<and> for_video_uri env cfg (uri # rest) w =
           (case for_video_uri env cfg rest (snd (snd (process_video env cfg uri w))) of
              (r, evs, w') \<Rightarrow> (r, events_of (process_video env cfg uri) w @ evs, w'))"
proof -
  obtain evs w' where pv: "process_video env cfg uri w = (Inr (), evs, w')"
    using assms(2) by (cases "process_video env cfg uri w") auto
  have "last evs = Remove_local_video_files \<and> count_list evs Remove_local_video_files = 1"
    using process_video_ends_with_cleanup[of env cfg uri] pv
    unfolding ends_with_cleanup_def by blast
  moreover have "for_video_uri env cfg (uri # rest) w =
      (case for_video_uri env cfg rest w' of (r, evs', w'') \<Rightarrow> (r, evs @ evs', w''))"
    using assms(1) pv by (simp add: for_video_uri_pass then_do_def)
  ultimately show ?thesis using pv by (simp add: events_of_def)
qed

theorem cleanup_closes_a_completed_iteration_witness:
  "\<not> provider_mismatch (scenario_config [first_locator]) first_locator
   \<and> fst (process_video (scenario_env two_features) (scenario_config [first_locator])
            first_locator 0) = Inr ()
   \<and> last (events_of (process_video (scenario_env two_features)
                        (scenario_config [first_locator]) first_locator) 0)
       = Remove_local_video_files
   \<and> count_list (events_of (process_video (scenario_env two_features)
                        (scenario_config [first_locator]) first_locator) 0)
        Remove_local_video_files = 1"
proof -
  have h1: "\<not> provider_mismatch (scenario_config [first_locator]) first_locator"
    by (simp add: provider_mismatch_def scenario_defs first_locator_def)
  have h2: "fst (process_video (scenario_env two_features) (scenario_config [first_locator])
            first_locator 0) = Inr ()"
    by (simp add: run_defs scenario_defs first_locator_def)
  from cleanup_closes_a_completed_iteration[OF h1 h2] h1 h2 show ?thesis by blast
qed

theorem unconditional_cleanup_counterexample:
  "Remove_local_video_files
     \<notin> set (events_of (for_video_uri (scenario_env two_features)
                         (scenario_config [''video2.mp4'']) [''video2.mp4'']) 0)
   \<and> Trim_video first_locator
     \<in> set (events_of (for_video_uri (scenario_env (Inl service_error))
                         (scenario_config [first_locator]) [first_locator]) 0)
   \<and> Remove_local_video_files
     \<notin> set (events_of (for_video_uri (scenario_env (Inl service_error))
                         (scenario_config [first_locator]) [first_locator]) 0)"
  by (simp add: run_defs scenario_defs first_locator_def service_error_def)



text \<open>
  C9. When the locator at index \<open>i\<close> fails the consistency check, the whole loop is
  the loop over the locators before index \<open>i\<close>, followed, when the loop gets as far as
  index \<open>i\<close>, by the one log record of the error, in the world that the earlier
  iterations left: the offending locator is never annotated, trimmed, evaluated, assessed,
  reported or cleaned up after.
\<close>

theorem offending_video_is_not_processed:
  assumes "i < length uris"
    and "provider_mismatch cfg (uris ! i)"
  shows "for_video_uri env cfg uris w =
         (case for_video_uri env cfg (take i uris) w of
            (r, evs, w') \<Rightarrow>
              if reaches env cfg uris i w
              then (Inr (), evs @ [Log_error (mismatch_message cfg (uris ! i))], w')
              else (r, evs, w'))"
  using assms by (rule for_video_uri_split)

theorem offending_video_is_not_processed_witness:
  "Suc 0 < length three_locators
   \<and> provider_mismatch (scenario_config three_locators) (three_locators ! Suc 0)
   \<and> reaches (scenario_env two_features) (scenario_config three_locators) three_locators
         (Suc 0) 0
   \<and> for_video_uri (scenario_env two_features) (scenario_config three_locators)
         three_locators 0 =
       (case for_video_uri (scenario_env two_features) (scenario_config three_locators)
               (take (Suc 0) three_locators) 0 of
          (r, evs, w') \<Rightarrow>
            (Inr (), evs @ [Log_error (mismatch_message (scenario_config three_locators)
                                         (three_locators ! Suc 0))], w'))"
proof -
  have h1: "Suc 0 < length three_locators"
    by (simp add: three_locators_def)
  have h2: "provider_mismatch (scenario_config three_locators) (three_locators ! Suc 0)"
    by (simp add: provider_mismatch_def scenario_defs three_locators_def)
  have h3: "reaches (scenario_env two_features) (scenario_config three_locators) three_locators
         (Suc 0) 0"
    by (simp add: reaches_def run_defs scenario_defs three_locators_def)
  from offending_video_is_not_processed[OF h1 h2, of "scenario_env two_features" 0] h1 h2 h3
  show ?thesis by simp
qed

text \<open>
  C10. When the configuration is valid and its \<open>video_uris\<close> is \<open>None\<close> or the empty
  list, \<open>analyse\<close> returns the dictionary with the one key \<open>logs\<close>, whose text
  contains the "There are no videos to process." line; building the configuration is the
  only call that was made, so the orchestrator did not run.
\<close>

theorem no_videos_to_process:
  assumes "build_custom_config env a1 a2 a3 a4 a5 a6 w = (Inr cfg, out, w1)"
    and "\<not> invalid_brand_metadata env cfg"
    and "video_uris cfg = None \<or> video_uris cfg = Some []"
  shows "analyse env a1 a2 a3 a4 a5 a6 w =
           (Inr [(''logs'', out @ ''Starting ABCD assessment...'' @ newline @ newline
                            @ ''There are no videos to process.'' @ newline @ newline
                            @ ''ABCD assessment took '' @ format_2f env 0 @ '' mins.''
                            @ newline @ newline)],
            [Build_custom_config], w1)"
proof -
  from assms(3) have "\<not> truthy (video_uris cfg)" by (auto simp: truthy_def)
  then show ?thesis
    unfolding analyse_def analyse_block_valid[OF assms(1,2)]
    by (simp add: print_def emit_def)
qed

theorem no_videos_to_process_witness:
  "build_custom_config (scenario_env two_features) None (Some [''Acme'']) None None None
     None 0 = (Inr ((scenario_config [])\<lparr>video_uris := None\<rparr>), [], 0)
   \<and> \<not> invalid_brand_metadata (scenario_env two_features)
       ((scenario_config [])\<lparr>video_uris := None\<rparr>)
   \<and> video_uris ((scenario_config [])\<lparr>video_uris := None\<rparr>) = None
   \<and> analyse (scenario_env two_features) None (Some [''Acme'']) None None None None 0 =
       (Inr [(''logs'', [] @ ''Starting ABCD assessment...'' @ newline @ newline
                            @ ''There are no videos to process.'' @ newline @ newline
                            @ ''ABCD assessment took ''
                            @ format_2f (scenario_env two_features) 0 @ '' mins.''
                            @ newline @ newline)],
            [Build_custom_config], 0)"
proof -
  have h1: "build_custom_config (scenario_env two_features) None (Some [''Acme'']) None None
     None None 0 = (Inr ((scenario_config [])\<lparr>video_uris := None\<rparr>), [], 0)"
    by (simp add: scenario_defs)
  have h2: "\<not> invalid_brand_metadata (scenario_env two_features)
       ((scenario_config [])\<lparr>video_uris := None\<rparr>)"
    by (simp add: scenario_defs)
  have h3: "video_uris ((scenario_config [])\<lparr>video_uris := None\<rparr>) = None"
    by simp
  from no_videos_to_process[OF h1 h2 disjI1[OF h3]] h1 h2 h3 show ?thesis by blast
qed

end
